theory Spec2Isabelle
  imports Main
begin

section \<open>Values exchanged with the bus and the device\<close>

text \<open>
  A decoded JSON payload, as \<open>json.loads\<close> returns it: \<open>None\<close>, a bool, an int, a
  str, a list or a dict. A dict is an association list in insertion order whose keys are
  distinct (\<open>json.loads\<close> keeps one binding per key). Numbers with a fraction (Python
  floats) are not part of the model. Strings are lists of characters, and a character
  here is a byte: on ASCII text they are Python's strings, character for character.
\<close>

datatype json =
    JNull
  | JBool bool
  | JInt int
  | JStr string
  | JList "json list"
  | JObj "(string \<times> json) list"

text \<open>Python truthiness of a decoded value (\<open>if action:\<close>, \<open>if app_id and ...\<close>).\<close>

fun truthy :: "json \<Rightarrow> bool" where
  "truthy JNull = False"
| "truthy (JBool b) = b"
| "truthy (JInt i) = (i \<noteq> 0)"
| "truthy (JStr s) = (s \<noteq> [])"
| "truthy (JList xs) = (xs \<noteq> [])"
| "truthy (JObj kvs) = (kvs \<noteq> [])"

text \<open>\<open>d.get(k)\<close> and \<open>d.get(k, default)\<close> on a dict of keyword arguments.\<close>

definition dict_get :: "(string \<times> json) list \<Rightarrow> string \<Rightarrow> json" where
  "dict_get d k = (case map_of d k of None \<Rightarrow> JNull | Some v \<Rightarrow> v)"

definition dict_get_default :: "(string \<times> json) list \<Rightarrow> string \<Rightarrow> json \<Rightarrow> json" where
  "dict_get_default d k dflt = (case map_of d k of None \<Rightarrow> dflt | Some v \<Rightarrow> v)"

text \<open>
  What \<open>for cmd in commands\<close> iterates over: the elements of a list, the characters of
  a str (each a one-character str), the keys of a dict. Iterating \<open>None\<close>, a bool or an
  int raises \<open>TypeError\<close> (the result \<open>None\<close> here).
\<close>

fun py_iter :: "json \<Rightarrow> json list option" where
  "py_iter (JList xs) = Some xs"
| "py_iter (JStr s) = Some (map (\<lambda>c. JStr [c]) s)"
| "py_iter (JObj kvs) = Some (map (\<lambda>kv. JStr (fst kv)) kvs)"
| "py_iter JNull = None"
| "py_iter (JBool b) = None"
| "py_iter (JInt i) = None"

text \<open>
  An exception: an instance of a subclass of Python's \<open>Exception\<close>, which is what every
  \<open>except Exception\<close> of the source catches, with its class name and message. Task
  cancellation (a \<open>BaseException\<close>) belongs to the scheduler and is outside this
  sequential model.
\<close>

datatype exn = Exn string string

section \<open>The Device Client\<close>

datatype rc_method =
    RcUp | RcDown | RcLeft | RcRight | RcSelect | RcMenu | RcHome
  | RcPlay | RcPause | RcPlayPause | RcStop | RcNext | RcPrevious

text \<open>Every call the bridge makes into the device session \<open>atv\<close>.\<close>

datatype dcall =
    RemoteControl rc_method
  | PowerTurnOn
  | PowerTurnOff
  | LaunchApp json
  | PlayUrl json
  | MetadataPlaying
  | MetadataApp
  | PowerState
  | AppList
  | Close

text \<open>
  The object \<open>metadata.playing()\<close> returns. An enum-valued attribute is \<open>None\<close> when it
  is falsy and otherwise carries what \<open>str\<close> gives for it (\<open>DeviceState.Playing\<close>).
\<close>

record playing =
  playing_media_type :: "string option"
  playing_device_state :: "string option"
  playing_title :: "string option"
  playing_artist :: "string option"
  playing_album :: "string option"
  playing_genre :: "string option"
  playing_position :: "int option"
  playing_total_time :: "int option"
  playing_repeat :: "string option"
  playing_shuffle :: "string option"

record app =
  app_name :: "string option"
  app_identifier :: "string option"

text \<open>
  The session object \<open>atv\<close>: which optional interfaces it offers
  (\<open>hasattr(atv, 'power') and atv.power\<close>, and the same for \<open>apps\<close> and \<open>stream\<close>).
\<close>

record session =
  has_power :: bool
  has_apps :: bool
  has_stream :: bool

section \<open>Snapshots and bus payloads\<close>

text \<open>The dict \<open>get_state\<close> builds, one field per key, \<open>None\<close> for Python's \<open>None\<close>.\<close>

record state =
  media_type :: "string option"
  device_state :: "string option"
  title :: "string option"
  artist :: "string option"
  album :: "string option"
  genre :: "string option"
  position :: "int option"
  total_time :: "int option"
  repeat :: "string option"
  shuffle :: "string option"
  app :: "string option"
  app_id :: "string option"
  power_state :: "string option"

text \<open>One entry \<open>{'name': ..., 'id': ...}\<close> of the list \<open>get_apps\<close> builds.\<close>

record app_entry =
  entry_name :: "string option"
  entry_id :: "string option"

text \<open>
  What is handed to the Pub/Sub client as payload: a literal text, or the text
  \<open>json.dumps\<close> gives for a state snapshot or for an apps list.
\<close>

datatype payload =
    Text string
  | DumpsState state
  | DumpsApps "app_entry list"

section \<open>Observable events\<close>

datatype level = Debug | Info | Warning | Error

text \<open>The messages of the source's \<open>logger\<close> calls, with their interpolated values.\<close>

datatype logmsg =
    AtvNotConnectedCannotExecute
  | UnknownAction json
  | ExecutedCommand json
  | ErrorExecutingCommand json exn
  | Traceback
  | ErrorGettingState exn
  | StateIs state
  | ErrorGettingApps exn
  | AppsFound nat
  | PublishedTo string payload
  | MqttNotConnectedSkippingPublish
  | ErrorPublishing exn
  | ConnectedToBroker
  | SubscribedTo string string
  | FailedToConnectToBroker int
  | InvalidJson string
  | ForcedUpdate json
  | ErrorInCommandHandler exn
  | ErrorInStateUpdateTask exn
  | ErrorInAppsUpdateTask exn
  | StateUpdateTaskStarted int
  | AppsUpdateTaskStarted int
  | CommandHandlerTaskStarted
  | CouldNotConnectBroker
  | CouldNotConnectAppleTv
  | AllTasksStarted
  | ShuttingDown
  | AppleTvConnectionClosed
  | MqttDisconnected
  | ShutdownComplete

datatype duration = Seconds int | Millis nat

datatype task = StateUpdate | AppsUpdate | CommandHandler

record message =
  topic :: string
  payload_text :: string

text \<open>
  What the bridge does to the outside, in the order it does it: log records, Device
  Client calls, Pub/Sub client calls, sleeps, queue reads and task management.
\<close>

datatype event =
    Log level logmsg
  | Device dcall
  | BusPublish string payload int bool
  | BusSubscribe string int
  | BusWillSet string payload int bool
  | BusUsernamePwSet
  | BusLoopStop
  | BusDisconnect
  | Sleep duration
  | QueueGet "message option"
  | TaskCreate task
  | TaskCancel task
  | Gather

text \<open>
  The outside world answers each call as a function of everything that happened so far
  (the trace): a deterministic but otherwise arbitrary device, broker, queue and signal
  source. \<open>None\<close> from a call that returns nothing means it returned normally.
\<close>

record env =
  device_call :: "event list \<Rightarrow> dcall \<Rightarrow> exn option"
  metadata_playing :: "event list \<Rightarrow> exn + playing"
  metadata_app :: "event list \<Rightarrow> exn + app option"
  power_power_state :: "event list \<Rightarrow> exn + string"
  apps_app_list :: "event list \<Rightarrow> exn + app list"
  atv_close :: "event list \<Rightarrow> exn option"
  is_connected :: "event list \<Rightarrow> bool"
  client_publish :: "event list \<Rightarrow> string \<Rightarrow> payload \<Rightarrow> exn option"
  client_subscribe :: "event list \<Rightarrow> string \<Rightarrow> exn option"
  client_disconnect :: "event list \<Rightarrow> exn option"
  shutdown_is_set :: "event list \<Rightarrow> bool"
  queue_get :: "event list \<Rightarrow> message option"
  json_loads :: "string \<Rightarrow> json option"

section \<open>Configuration and the module's globals\<close>

text \<open>
  The attributes \<open>Config._load\<close> sets. A value read with \<open>os.getenv\<close> is a str or
  \<open>None\<close>; the numeric settings went through \<open>int\<close>.
\<close>

record config =
  mqtt_host :: "string option"
  mqtt_port :: int
  mqtt_user :: "string option"
  mqtt_password :: "string option"
  mqtt_qos :: int
  mqtt_base_topic :: "string option"
  appletv_id :: "string option"
  appletv_credentials :: "string option"
  appletv_address :: "string option"
  state_update_interval :: int
  apps_update_interval :: int
  mqtt_reconnect_delay :: int
  appletv_reconnect_delay :: int
  log_level :: string

text \<open>How an f-string renders a value that is a str or \<open>None\<close>.\<close>

definition fstr :: "string option \<Rightarrow> string" where
  "fstr v = (case v of None \<Rightarrow> ''None'' | Some s \<Rightarrow> s)"

definition topic_availability :: "config \<Rightarrow> string" where
  "topic_availability c = fstr (mqtt_base_topic c) @ ''/availability''"

definition topic_state :: "config \<Rightarrow> string" where
  "topic_state c = fstr (mqtt_base_topic c) @ ''/state''"

definition topic_apps :: "config \<Rightarrow> string" where
  "topic_apps c = fstr (mqtt_base_topic c) @ ''/apps''"

definition topic_set :: "config \<Rightarrow> string" where
  "topic_set c = fstr (mqtt_base_topic c) @ ''/set''"

definition topic_get :: "config \<Rightarrow> string" where
  "topic_get c = fstr (mqtt_base_topic c) @ ''/get''"

text \<open>
  The module-level globals the functions read: \<open>config\<close>, \<open>mqtt_client\<close> (set or
  \<open>None\<close>) and the device session \<open>atv\<close> (set or \<open>None\<close>).
\<close>

record globals =
  config :: config
  mqtt_client :: bool
  atv :: "session option"

section \<open>MQTT functions\<close>

text \<open>
  \<open>mqtt_publish\<close>: the whole body is inside \<open>try\<close>; an exception of the client's
  \<open>publish\<close> is logged by the handler and the function returns normally.
\<close>

definition mqtt_publish ::
  "env \<Rightarrow> globals \<Rightarrow> string \<Rightarrow> payload \<Rightarrow> bool \<Rightarrow> event list \<Rightarrow> (exn + unit) \<times> event list" where
  "mqtt_publish E G tpc pl retain w =
     (case
        (if mqtt_client G \<and> is_connected E w then
           (case client_publish E w tpc pl of
              Some e \<Rightarrow> (Inl e, w @ [BusPublish tpc pl (mqtt_qos (config G)) retain])
            | None \<Rightarrow>
                (Inr (), w @ [BusPublish tpc pl (mqtt_qos (config G)) retain,
                              Log Debug (PublishedTo tpc pl)]))
         else (Inr (), w @ [Log Warning MqttNotConnectedSkippingPublish]))
      of
        (Inl e, w') \<Rightarrow> (Inr (), w' @ [Log Error (ErrorPublishing e)])
      | (Inr u, w') \<Rightarrow> (Inr (), w'))"

text \<open>
  \<open>on_mqtt_connect\<close>, called by the client's network thread with the broker's reason
  code. Nothing is caught here: an exception of \<open>subscribe\<close> or \<open>publish\<close> leaves the
  callback.
\<close>

definition on_mqtt_connect ::
  "env \<Rightarrow> globals \<Rightarrow> int \<Rightarrow> event list \<Rightarrow> (exn + unit) \<times> event list" where
  "on_mqtt_connect E G reason_code w =
     (if reason_code = 0 then
        (let c = config G;
             w1 = w @ [Log Info ConnectedToBroker, BusSubscribe (topic_set c) (mqtt_qos c)]
         in case client_subscribe E w1 (topic_set c) of
              Some e \<Rightarrow> (Inl e, w1)
            | None \<Rightarrow>
               (let w2 = w1 @ [BusSubscribe (topic_get c) (mqtt_qos c)]
                in case client_subscribe E w2 (topic_get c) of
                     Some e \<Rightarrow> (Inl e, w2)
                   | None \<Rightarrow>
                      (let w3 = w2 @ [Log Info (SubscribedTo (topic_set c) (topic_get c))];
                           w4 = w3 @ [BusPublish (topic_availability c) (Text ''online'')
                                        (mqtt_qos c) True]
                       in case client_publish E w3 (topic_availability c) (Text ''online'') of
                            Some e \<Rightarrow> (Inl e, w4)
                          | None \<Rightarrow> (Inr (), w4))))
      else (Inr (), w @ [Log Error (FailedToConnectToBroker reason_code)]))"

section \<open>Apple TV functions\<close>

text \<open>An awaited Device Client call that returns nothing: it is made, and it may raise.\<close>

definition await_call :: "env \<Rightarrow> dcall \<Rightarrow> event list \<Rightarrow> (exn + bool) \<times> event list" where
  "await_call E c w =
     (case device_call E w c of
        Some e \<Rightarrow> (Inl e, w @ [Device c])
      | None \<Rightarrow> (Inr True, w @ [Device c]))"

text \<open>
  \<open>execute_command(action, **kwargs)\<close>. The \<open>try\<close> body yields \<open>Inr True\<close> when it
  runs to its last statement (the "Executed command" record), \<open>Inr False\<close> on the early
  \<open>return\<close> of the unknown-action branch, \<open>Inl e\<close> when \<open>e\<close> was raised; the
  \<open>except Exception\<close> handler logs and the function returns normally. The "multi" branch
  calls \<open>execute_command(cmd)\<close>, with no keyword arguments, for each element and sleeps
  0.3 s after each call.
\<close>

function execute_command ::
  "env \<Rightarrow> globals \<Rightarrow> json \<Rightarrow> (string \<times> json) list \<Rightarrow> event list \<Rightarrow> (exn + unit) \<times> event list" where
  "execute_command E G action kwargs w =
     (case atv G of
        None \<Rightarrow> (Inr (), w @ [Log Warning AtvNotConnectedCannotExecute])
      | Some a \<Rightarrow>
         (case
            (if action = JStr ''up'' then await_call E (RemoteControl RcUp) w
             else if action = JStr ''down'' then await_call E (RemoteControl RcDown) w
             else if action = JStr ''left'' then await_call E (RemoteControl RcLeft) w
             else if action = JStr ''right'' then await_call E (RemoteControl RcRight) w
             else if action = JStr ''select'' then await_call E (RemoteControl RcSelect) w
             else if action = JStr ''menu'' then await_call E (RemoteControl RcMenu) w
             else if action = JStr ''home'' then await_call E (RemoteControl RcHome) w
             else if action = JStr ''play'' then await_call E (RemoteControl RcPlay) w
             else if action = JStr ''pause'' then await_call E (RemoteControl RcPause) w
             else if action = JStr ''play_pause'' then await_call E (RemoteControl RcPlayPause) w
             else if action = JStr ''stop'' then await_call E (RemoteControl RcStop) w
             else if action = JStr ''next'' then await_call E (RemoteControl RcNext) w
             else if action = JStr ''previous'' then await_call E (RemoteControl RcPrevious) w
             else if action = JStr ''turn_on'' then
               (if has_power a then await_call E PowerTurnOn w else (Inr True, w))
             else if action = JStr ''turn_off'' then
               (if has_power a then await_call E PowerTurnOff w else (Inr True, w))
             else if action = JStr ''wakeup'' then
               (if has_power a then await_call E PowerTurnOn w else (Inr True, w))
             else if action = JStr ''suspend'' then
               (if has_power a then await_call E PowerTurnOff w else (Inr True, w))
             else if action = JStr ''launch_app'' then
               (let app_id = dict_get kwargs ''app_id''
                in if truthy app_id \<and> has_apps a then await_call E (LaunchApp app_id) w
                   else (Inr True, w))
             else if action = JStr ''play_url'' then
               (let url = dict_get kwargs ''url''
                in if truthy url \<and> has_stream a then await_call E (PlayUrl url) w
                   else (Inr True, w))
             else if action = JStr ''multi'' then
               (case py_iter (dict_get_default kwargs ''commands'' (JList [])) of
                  None \<Rightarrow> (Inl (Exn ''TypeError'' ''object is not iterable''), w)
                | Some commands \<Rightarrow>
                    fold (\<lambda>cmd r.
                            case r of
                              (Inl e, w') \<Rightarrow> (Inl e, w')
                            | (Inr b, w') \<Rightarrow>
                                (case execute_command E G cmd [] w' of
                                   (Inl e, w'') \<Rightarrow> (Inl e, w'')
                                 | (Inr u, w'') \<Rightarrow> (Inr True, w'' @ [Sleep (Millis 300)])))
                         commands (Inr True, w))
             else (Inr False, w @ [Log Warning (UnknownAction action)]))
          of
            (Inl e, w') \<Rightarrow>
              (Inr (), w' @ [Log Error (ErrorExecutingCommand action e), Log Debug Traceback])
          | (Inr False, w') \<Rightarrow> (Inr (), w')
          | (Inr True, w') \<Rightarrow> (Inr (), w' @ [Log Info (ExecutedCommand action)])))"
  by pat_completeness auto
termination
proof (relation "measure (\<lambda>(E, G, action, kwargs, w). length kwargs)")
  show "wf (measure (\<lambda>(E, G, action, kwargs, w). length kwargs))"
    by simp
next
  fix E :: env and G :: globals and action :: json and kwargs :: "(string \<times> json) list"
    and w :: "event list" and commands :: "json list" and cmd :: json
    and r :: "(exn + bool) \<times> event list" and w' :: "event list"
  assume it: "py_iter (dict_get_default kwargs ''commands'' (JList [])) = Some commands"
    and mem: "cmd \<in> set commands"
  have "kwargs \<noteq> []"
  proof
    assume "kwargs = []"
    with it have "commands = []"
      by (simp add: dict_get_default_def)
    with mem show False
      by simp
  qed
  then show "((E, G, cmd, [], w'), (E, G, action, kwargs, w))
      \<in> measure (\<lambda>(E, G, action, kwargs, w). length kwargs)"
    by simp
qed

declare execute_command.simps [simp del]

text \<open>The snapshot \<open>get_state\<close> starts from: every key bound to \<open>None\<close>.\<close>

definition default_state :: state where
  "default_state =
     \<lparr>media_type = None, device_state = None, title = None, artist = None, album = None,
      genre = None, position = None, total_time = None, repeat = None, shuffle = None,
      app = None, app_id = None, power_state = None\<rparr>"

text \<open>\<open>s.split('.')[-1]\<close>: what follows the last dot, or all of \<open>s\<close> without one.\<close>

definition last_segment :: "string \<Rightarrow> string" where
  "last_segment s = rev (takeWhile (\<lambda>c. c \<noteq> CHR ''.'') (rev s))"

text \<open>
  \<open>get_state\<close>. The \<open>try\<close> body fills the dict in place, so an exception raised after
  some assignments leaves them in the dict the function returns. The body's result is
  the raised exception or nothing, the dict as it stands, and the trace.
\<close>

definition get_state :: "env \<Rightarrow> globals \<Rightarrow> event list \<Rightarrow> (exn + state) \<times> event list" where
  "get_state E G w =
     (case atv G of
        None \<Rightarrow> (Inr default_state, w)
      | Some a \<Rightarrow>
         (case
            (case metadata_playing E w of
               Inl e \<Rightarrow> (Inl e, default_state, w @ [Device MetadataPlaying])
             | Inr p \<Rightarrow>
                (let w1 = w @ [Device MetadataPlaying];
                     st1 = default_state
                       \<lparr>media_type := map_option last_segment (playing_media_type p),
                        device_state := map_option last_segment (playing_device_state p),
                        title := playing_title p,
                        artist := playing_artist p,
                        album := playing_album p,
                        genre := playing_genre p,
                        position := playing_position p,
                        total_time := playing_total_time p,
                        repeat := map_option last_segment (playing_repeat p),
                        shuffle := map_option last_segment (playing_shuffle p)\<rparr>;
                     st2 = (case metadata_app E w1 of
                              Inl e \<Rightarrow> st1\<lparr>app := None, app_id := None\<rparr>
                            | Inr None \<Rightarrow> st1\<lparr>app := None, app_id := None\<rparr>
                            | Inr (Some ap) \<Rightarrow>
                                st1\<lparr>app := app_name ap, app_id := app_identifier ap\<rparr>);
                     w2 = w1 @ [Device MetadataApp]
                 in if has_power a then
                      (case power_power_state E w2 of
                         Inl e \<Rightarrow> (Inl e, st2, w2 @ [Device PowerState])
                       | Inr s \<Rightarrow>
                          (let st3 = st2\<lparr>power_state := Some (last_segment s)\<rparr>
                           in (Inr (), st3, w2 @ [Device PowerState, Log Debug (StateIs st3)])))
                    else (Inr (), st2, w2 @ [Log Debug (StateIs st2)])))
          of
            (Inl e, st, w') \<Rightarrow>
              (Inr st, w' @ [Log Error (ErrorGettingState e), Log Debug Traceback])
          | (Inr u, st, w') \<Rightarrow> (Inr st, w')))"

definition get_apps ::
  "env \<Rightarrow> globals \<Rightarrow> event list \<Rightarrow> (exn + app_entry list) \<times> event list" where
  "get_apps E G w =
     (case atv G of
        None \<Rightarrow> (Inr [], w)
      | Some a \<Rightarrow>
         (if \<not> has_apps a then (Inr [], w)
          else
            (case apps_app_list E w of
               Inl e \<Rightarrow>
                 (Inr [], w @ [Device AppList, Log Error (ErrorGettingApps e), Log Debug Traceback])
             | Inr app_list \<Rightarrow>
                 (let apps = map (\<lambda>ap. \<lparr>entry_name = app_name ap,
                                          entry_id = app_identifier ap\<rparr>) app_list
                  in (Inr apps, w @ [Device AppList, Log Debug (AppsFound (length apps))])))))"

section \<open>Async tasks\<close>

text \<open>
  The periodic loops run until the shutdown event is set, which may be never: they take
  fuel, the number of iterations observed, and answer \<open>None\<close> when the loop is still
  running after that many.
\<close>

fun task_state_update_loop ::
  "env \<Rightarrow> globals \<Rightarrow> nat \<Rightarrow> event list \<Rightarrow> unit option \<times> event list" where
  "task_state_update_loop E G 0 w = (None, w)"
| "task_state_update_loop E G (Suc n) w =
     (if shutdown_is_set E w then (Some (), w)
      else
        (let w' =
               (case get_state E G w of
                  (Inl e, w1) \<Rightarrow>
                    w1 @ [Log Error (ErrorInStateUpdateTask e), Log Debug Traceback]
                | (Inr st, w1) \<Rightarrow>
                    (case mqtt_publish E G (topic_state (config G)) (DumpsState st) False w1 of
                       (Inl e, w2) \<Rightarrow>
                         w2 @ [Log Error (ErrorInStateUpdateTask e), Log Debug Traceback]
                     | (Inr u, w2) \<Rightarrow> w2))
         in task_state_update_loop E G n
              (w' @ [Sleep (Seconds (state_update_interval (config G)))])))"

definition task_state_update ::
  "env \<Rightarrow> globals \<Rightarrow> nat \<Rightarrow> event list \<Rightarrow> unit option \<times> event list" where
  "task_state_update E G n w =
     task_state_update_loop E G n
       (w @ [Log Info (StateUpdateTaskStarted (state_update_interval (config G)))])"

fun task_apps_update_loop ::
  "env \<Rightarrow> globals \<Rightarrow> nat \<Rightarrow> event list \<Rightarrow> unit option \<times> event list" where
  "task_apps_update_loop E G 0 w = (None, w)"
| "task_apps_update_loop E G (Suc n) w =
     (if shutdown_is_set E w then (Some (), w)
      else
        (let w' =
               (case get_apps E G w of
                  (Inl e, w1) \<Rightarrow>
                    w1 @ [Log Error (ErrorInAppsUpdateTask e), Log Debug Traceback]
                | (Inr apps, w1) \<Rightarrow>
                    (case mqtt_publish E G (topic_apps (config G)) (DumpsApps apps) True w1 of
                       (Inl e, w2) \<Rightarrow>
                         w2 @ [Log Error (ErrorInAppsUpdateTask e), Log Debug Traceback]
                     | (Inr u, w2) \<Rightarrow> w2))
         in task_apps_update_loop E G n
              (w' @ [Sleep (Seconds (apps_update_interval (config G)))])))"

definition task_apps_update ::
  "env \<Rightarrow> globals \<Rightarrow> nat \<Rightarrow> event list \<Rightarrow> unit option \<times> event list" where
  "task_apps_update E G n w =
     task_apps_update_loop E G n
       (w @ [Log Info (AppsUpdateTaskStarted (apps_update_interval (config G)))])"

text \<open>
  \<open>data.pop('action', None)\<close> and \<open>data.get('type', 'all')\<close> on whatever \<open>json.loads\<close>
  returned: only a dict has both methods with these arguments.
\<close>

fun data_pop_action :: "json \<Rightarrow> exn + json \<times> (string \<times> json) list" where
  "data_pop_action (JObj kvs) =
     Inr (dict_get kvs ''action'', filter (\<lambda>kv. fst kv \<noteq> ''action'') kvs)"
| "data_pop_action (JList xs) = Inl (Exn ''TypeError'' ''pop expected at most 1 argument'')"
| "data_pop_action v = Inl (Exn ''AttributeError'' ''object has no attribute pop'')"

fun data_get_type :: "json \<Rightarrow> exn + json" where
  "data_get_type (JObj kvs) = Inr (dict_get_default kvs ''type'' (JStr ''all''))"
| "data_get_type v = Inl (Exn ''AttributeError'' ''object has no attribute get'')"

text \<open>
  The body of the handler's outer \<open>try\<close> for one dequeued message (from
  \<open>topic = cmd['topic']\<close> to the "Forced update" record).
\<close>

definition task_command_handler_body ::
  "env \<Rightarrow> globals \<Rightarrow> message \<Rightarrow> event list \<Rightarrow> (exn + unit) \<times> event list" where
  "task_command_handler_body E G cmd w =
     (case json_loads E (payload_text cmd) of
        None \<Rightarrow> (Inr (), w @ [Log Warning (InvalidJson (payload_text cmd))])
      | Some data \<Rightarrow>
         (if topic cmd = topic_set (config G) then
            (case data_pop_action data of
               Inl e \<Rightarrow> (Inl e, w)
             | Inr (action, rest) \<Rightarrow>
                 (if truthy action then execute_command E G action rest w else (Inr (), w)))
          else if topic cmd = topic_get (config G) then
            (case data_get_type data of
               Inl e \<Rightarrow> (Inl e, w)
             | Inr get_type \<Rightarrow>
                (case
                   (if get_type = JStr ''state'' \<or> get_type = JStr ''all'' then
                      (case get_state E G w of
                         (Inl e, w1) \<Rightarrow> (Inl e, w1)
                       | (Inr st, w1) \<Rightarrow>
                           mqtt_publish E G (topic_state (config G)) (DumpsState st) False w1)
                    else (Inr (), w))
                 of
                   (Inl e, w2) \<Rightarrow> (Inl e, w2)
                 | (Inr u, w2) \<Rightarrow>
                    (case
                       (if get_type = JStr ''apps'' \<or> get_type = JStr ''all'' then
                          (case get_apps E G w2 of
                             (Inl e, w3) \<Rightarrow> (Inl e, w3)
                           | (Inr apps, w3) \<Rightarrow>
                               mqtt_publish E G (topic_apps (config G)) (DumpsApps apps) True w3)
                        else (Inr (), w2))
                     of
                       (Inl e, w4) \<Rightarrow> (Inl e, w4)
                     | (Inr u', w4) \<Rightarrow> (Inr (), w4 @ [Log Info (ForcedUpdate get_type)]))))
          else (Inr (), w)))"

text \<open>
  The handler's loop: each iteration waits on the queue for up to a second, goes round
  again on a timeout, and logs whatever the body raises.
\<close>

fun task_command_handler_loop ::
  "env \<Rightarrow> globals \<Rightarrow> nat \<Rightarrow> event list \<Rightarrow> unit option \<times> event list" where
  "task_command_handler_loop E G 0 w = (None, w)"
| "task_command_handler_loop E G (Suc n) w =
     (if shutdown_is_set E w then (Some (), w)
      else
        (case queue_get E w of
           None \<Rightarrow> task_command_handler_loop E G n (w @ [QueueGet None])
         | Some cmd \<Rightarrow>
            (case task_command_handler_body E G cmd (w @ [QueueGet (Some cmd)]) of
               (Inl e, w') \<Rightarrow>
                 task_command_handler_loop E G n
                   (w' @ [Log Error (ErrorInCommandHandler e), Log Debug Traceback])
             | (Inr u, w') \<Rightarrow> task_command_handler_loop E G n w')))"

definition task_command_handler ::
  "env \<Rightarrow> globals \<Rightarrow> nat \<Rightarrow> event list \<Rightarrow> unit option \<times> event list" where
  "task_command_handler E G n w =
     task_command_handler_loop E G n (w @ [Log Info CommandHandlerTaskStarted])"

section \<open>Main\<close>

text \<open>
  \<open>setup_mqtt\<close>: credentials when both are non-empty, then the last will.
\<close>

definition setup_mqtt :: "globals \<Rightarrow> event list \<Rightarrow> event list" where
  "setup_mqtt G w =
     (let c = config G;
          w1 = (if mqtt_user c \<noteq> None \<and> mqtt_user c \<noteq> Some [] \<and>
                   mqtt_password c \<noteq> None \<and> mqtt_password c \<noteq> Some []
                then w @ [BusUsernamePwSet] else w)
      in w1 @ [BusWillSet (topic_availability c) (Text ''offline'') (mqtt_qos c) True])"

text \<open>
  The graceful shutdown of \<open>main\<close>, from the "Shutting down..." record to \<open>return 0\<close>,
  entered when \<open>shutdown_event.wait()\<close> returns. \<open>gather\<close> runs with
  \<open>return_exceptions=True\<close> and raises nothing; \<open>atv.close()\<close> and the client's
  \<open>disconnect\<close> are not inside any \<open>try\<close> of \<open>main\<close>.
\<close>

definition graceful_shutdown ::
  "env \<Rightarrow> globals \<Rightarrow> event list \<Rightarrow> (exn + int) \<times> event list" where
  "graceful_shutdown E G w =
     (let w1 = w @ [Log Info ShuttingDown, TaskCancel StateUpdate, TaskCancel AppsUpdate,
                    TaskCancel CommandHandler, Gather]
      in case mqtt_publish E G (topic_availability (config G)) (Text ''offline'') True w1 of
           (Inl e, w2) \<Rightarrow> (Inl e, w2)
         | (Inr u, w2) \<Rightarrow>
            (case
               (case atv G of
                  None \<Rightarrow> (Inr (), w2)
                | Some a \<Rightarrow>
                   (case atv_close E w2 of
                      Some e \<Rightarrow> (Inl e, w2 @ [Device Close])
                    | None \<Rightarrow> (Inr (), w2 @ [Device Close, Log Info AppleTvConnectionClosed])))
             of
               (Inl e, w3) \<Rightarrow> (Inl e, w3)
             | (Inr u', w3) \<Rightarrow>
                (case client_disconnect E (w3 @ [BusLoopStop]) of
                   Some e \<Rightarrow> (Inl e, w3 @ [BusLoopStop, BusDisconnect])
                 | None \<Rightarrow>
                    (Inr 0, w3 @ [BusLoopStop, BusDisconnect, Log Info MqttDisconnected,
                                  Log Info ShutdownComplete]))))"

text \<open>
  \<open>main\<close> from "Setup and connect MQTT" on. \<open>G\<close> holds the globals as the two connect
  functions leave them (\<open>atv G\<close> is what \<open>connect_appletv\<close> returned), \<open>connected\<close> is
  what \<open>connect_mqtt\<close> returned, and \<open>running\<close> is what the three tasks did while
  \<open>main\<close> waited for the shutdown event.
\<close>

definition main ::
  "env \<Rightarrow> globals \<Rightarrow> bool \<Rightarrow> event list \<Rightarrow> event list \<Rightarrow> (exn + int) \<times> event list" where
  "main E G connected running w =
     (let c = config G; w1 = setup_mqtt G w
      in if \<not> connected then (Inr 1, w1 @ [Log Error CouldNotConnectBroker])
         else
           (case atv G of
              None \<Rightarrow>
                (let w2 = w1 @ [Log Error CouldNotConnectAppleTv];
                     w3 = w2 @ [BusPublish (topic_availability c) (Text ''offline'') (mqtt_qos c) True]
                 in case client_publish E w2 (topic_availability c) (Text ''offline'') of
                      Some e \<Rightarrow> (Inl e, w3)
                    | None \<Rightarrow>
                       (case client_disconnect E (w3 @ [BusLoopStop]) of
                          Some e \<Rightarrow> (Inl e, w3 @ [BusLoopStop, BusDisconnect])
                        | None \<Rightarrow> (Inr 1, w3 @ [BusLoopStop, BusDisconnect])))
            | Some a \<Rightarrow>
                graceful_shutdown E G
                  (w1 @ [TaskCreate StateUpdate, TaskCreate AppsUpdate, TaskCreate CommandHandler,
                         Log Info AllTasksStarted] @ running)))"

section \<open>Loading the configuration\<close>

definition REQUIRED_VARS :: "string list" where
  "REQUIRED_VARS =
     [''MQTT_HOST'', ''MQTT_PORT'', ''MQTT_USER'', ''MQTT_PASSWORD'', ''MQTT_QOS'',
      ''MQTT_BASE_TOPIC'', ''APPLETV_ID'', ''APPLETV_CREDENTIALS'', ''APPLETV_ADDRESS'',
      ''STATE_UPDATE_INTERVAL'', ''APPS_UPDATE_INTERVAL'', ''MQTT_RECONNECT_DELAY'',
      ''APPLETV_RECONNECT_DELAY'', ''LOG_LEVEL'']"

text \<open>\<open>not os.getenv(var)\<close>: the variable is unset, or set to the empty string.\<close>

definition not_getenv :: "(string \<Rightarrow> string option) \<Rightarrow> string \<Rightarrow> bool" where
  "not_getenv environ var = (case environ var of None \<Rightarrow> True | Some v \<Rightarrow> v = [])"

text \<open>
  How construction of \<open>Config\<close> can end without a configuration: \<open>sys.exit(1)\<close> after
  printing the listed missing variables, or an exception of \<open>int\<close>.
\<close>

datatype startup_error = SystemExit int "string list" | Raised exn

definition Config_validate :: "(string \<Rightarrow> string option) \<Rightarrow> startup_error + unit" where
  "Config_validate environ =
     (let missing = filter (not_getenv environ) REQUIRED_VARS
      in if missing \<noteq> [] then Inl (SystemExit 1 missing) else Inr ())"

text \<open>
  \<open>int(os.getenv(var))\<close>; Python's \<open>int\<close> on a str is the parameter \<open>py_int\<close>
  (\<open>None\<close> where it raises \<open>ValueError\<close>).
\<close>

definition getenv_int ::
  "(string \<Rightarrow> int option) \<Rightarrow> (string \<Rightarrow> string option) \<Rightarrow> string \<Rightarrow> startup_error + int" where
  "getenv_int py_int environ var =
     (case environ var of
        None \<Rightarrow> Inl (Raised (Exn ''TypeError'' ''int() argument must be a string''))
      | Some v \<Rightarrow>
         (case py_int v of
            None \<Rightarrow> Inl (Raised (Exn ''ValueError'' ''invalid literal for int()''))
          | Some i \<Rightarrow> Inr i))"

text \<open>
  \<open>str.upper\<close> is Python's own, on every letter of Unicode: it is the parameter
  \<open>py_upper\<close>.
\<close>

definition Config_load ::
  "(string \<Rightarrow> int option) \<Rightarrow> (string \<Rightarrow> string) \<Rightarrow> (string \<Rightarrow> string option) \<Rightarrow>
     startup_error + config" where
  "Config_load py_int py_upper environ =
     (case getenv_int py_int environ ''MQTT_PORT'' of
        Inl e \<Rightarrow> Inl e
      | Inr port \<Rightarrow>
     (case getenv_int py_int environ ''MQTT_QOS'' of
        Inl e \<Rightarrow> Inl e
      | Inr qos \<Rightarrow>
     (case getenv_int py_int environ ''STATE_UPDATE_INTERVAL'' of
        Inl e \<Rightarrow> Inl e
      | Inr si \<Rightarrow>
     (case getenv_int py_int environ ''APPS_UPDATE_INTERVAL'' of
        Inl e \<Rightarrow> Inl e
      | Inr ai \<Rightarrow>
     (case getenv_int py_int environ ''MQTT_RECONNECT_DELAY'' of
        Inl e \<Rightarrow> Inl e
      | Inr md \<Rightarrow>
     (case getenv_int py_int environ ''APPLETV_RECONNECT_DELAY'' of
        Inl e \<Rightarrow> Inl e
      | Inr ad \<Rightarrow>
        Inr \<lparr>mqtt_host = environ ''MQTT_HOST'',
             mqtt_port = port,
             mqtt_user = environ ''MQTT_USER'',
             mqtt_password = environ ''MQTT_PASSWORD'',
             mqtt_qos = qos,
             mqtt_base_topic = environ ''MQTT_BASE_TOPIC'',
             appletv_id = environ ''APPLETV_ID'',
             appletv_credentials = environ ''APPLETV_CREDENTIALS'',
             appletv_address = environ ''APPLETV_ADDRESS'',
             state_update_interval = si,
             apps_update_interval = ai,
             mqtt_reconnect_delay = md,
             appletv_reconnect_delay = ad,
             log_level =
               py_upper
                 (case environ ''LOG_LEVEL'' of None \<Rightarrow> ''INFO'' | Some v \<Rightarrow> v)\<rparr>))))))"

text \<open>\<open>Config()\<close>, on the environment as \<open>load_dotenv\<close> left it: validate, then load.\<close>

definition Config_init ::
  "(string \<Rightarrow> int option) \<Rightarrow> (string \<Rightarrow> string) \<Rightarrow> (string \<Rightarrow> string option) \<Rightarrow>
     startup_error + config" where
  "Config_init py_int py_upper environ =
     (case Config_validate environ of
        Inl e \<Rightarrow> Inl e
      | Inr u \<Rightarrow> Config_load py_int py_upper environ)"

section \<open>Notions used to state the properties\<close>

text \<open>The Device Client calls recorded in a trace, in order.\<close>

fun device_calls :: "event list \<Rightarrow> dcall list" where
  "device_calls [] = []"
| "device_calls (Device c # es) = c # device_calls es"
| "device_calls (e # es) = device_calls es"

text \<open>
  The action names \<open>execute_command\<close> has a branch for: navigation, media, power,
  \<open>launch_app\<close>, \<open>play_url\<close> and \<open>multi\<close>.
\<close>

definition catalogue :: "json list" where
  "catalogue = map JStr
     [''up'', ''down'', ''left'', ''right'', ''select'', ''menu'', ''home'',
      ''play'', ''pause'', ''play_pause'', ''stop'', ''next'', ''previous'',
      ''turn_on'', ''turn_off'', ''wakeup'', ''suspend'',
      ''launch_app'', ''play_url'', ''multi'']"


text \<open>
  A "multi" sequence as the specification describes it: each step is one call of
  \<open>execute_command\<close> with the step's name alone, whatever it returns, then the pause,
  then the next step.
\<close>

fun steps_in_order :: "env \<Rightarrow> globals \<Rightarrow> json list \<Rightarrow> event list \<Rightarrow> event list" where
  "steps_in_order E G [] w = w"
| "steps_in_order E G (cmd # cmds) w =
     steps_in_order E G cmds (snd (execute_command E G cmd [] w) @ [Sleep (Millis 300)])"

text \<open>Every key of a snapshot is bound to \<open>None\<close>.\<close>

definition all_fields_absent :: "state \<Rightarrow> bool" where
  "all_fields_absent st =
     (media_type st = None \<and> device_state st = None \<and> title st = None \<and> artist st = None \<and>
      album st = None \<and> genre st = None \<and> position st = None \<and> total_time st = None \<and>
      repeat st = None \<and> shuffle st = None \<and> app st = None \<and> app_id st = None \<and>
      power_state st = None)"

text \<open>The messages handed to the Pub/Sub client's \<open>publish\<close> in a trace, in order.\<close>

fun bus_publishes :: "event list \<Rightarrow> (string \<times> payload \<times> int \<times> bool) list" where
  "bus_publishes [] = []"
| "bus_publishes (BusPublish t p q r # es) = (t, p, q, r) # bus_publishes es"
| "bus_publishes (e # es) = bus_publishes es"

text \<open>
  "Fetch-and-publish" as the specification has it for the two artifacts: the snapshot
  \<open>get_state\<close> returns goes to \<open>mqtt_publish\<close> on the state topic, not retained; the
  list \<open>get_apps\<close> returns goes to \<open>mqtt_publish\<close> on the apps topic, retained.
\<close>

definition fetched_state :: "env \<Rightarrow> globals \<Rightarrow> event list \<Rightarrow> state" where
  "fetched_state E G w = (case fst (get_state E G w) of Inr st \<Rightarrow> st | Inl e \<Rightarrow> default_state)"

definition fetched_apps :: "env \<Rightarrow> globals \<Rightarrow> event list \<Rightarrow> app_entry list" where
  "fetched_apps E G w = (case fst (get_apps E G w) of Inr apps \<Rightarrow> apps | Inl e \<Rightarrow> [])"

definition fetch_and_publish_state :: "env \<Rightarrow> globals \<Rightarrow> event list \<Rightarrow> event list" where
  "fetch_and_publish_state E G w =
     snd (mqtt_publish E G (topic_state (config G)) (DumpsState (fetched_state E G w)) False
            (snd (get_state E G w)))"

definition fetch_and_publish_apps :: "env \<Rightarrow> globals \<Rightarrow> event list \<Rightarrow> event list" where
  "fetch_and_publish_apps E G w =
     snd (mqtt_publish E G (topic_apps (config G)) (DumpsApps (fetched_apps E G w)) True
            (snd (get_apps E G w)))"

text \<open>
  The retain flag the specification gives each kind of message: the availability texts
  and the apps list are retained (so is the last will), a state snapshot is not.
\<close>

fun retain_as_specified :: "event \<Rightarrow> bool" where
  "retain_as_specified (BusPublish t (Text s) q r) =
     (if s = ''online'' \<or> s = ''offline'' then r else True)"
| "retain_as_specified (BusPublish t (DumpsApps apps) q r) = r"
| "retain_as_specified (BusPublish t (DumpsState st) q r) = (\<not> r)"
| "retain_as_specified (BusWillSet t p q r) = r"
| "retain_as_specified e = True"

text \<open>
  The steps of the shutdown protocol as they show in a trace: cancelling a task,
  awaiting the tasks, handing "offline" for the availability topic to the client,
  closing the device session, stopping the client's loop and disconnecting it.
\<close>

datatype shutdown_step =
    StepCancel task
  | StepAwait
  | StepOffline
  | StepClose
  | StepLoopStop
  | StepDisconnect

fun shutdown_step_of :: "config \<Rightarrow> event \<Rightarrow> shutdown_step option" where
  "shutdown_step_of c (TaskCancel t) = Some (StepCancel t)"
| "shutdown_step_of c Gather = Some StepAwait"
| "shutdown_step_of c (BusPublish t p q r) =
     (if t = topic_availability c \<and> p = Text ''offline'' then Some StepOffline else None)"
| "shutdown_step_of c (Device d) = (if d = Close then Some StepClose else None)"
| "shutdown_step_of c BusLoopStop = Some StepLoopStop"
| "shutdown_step_of c BusDisconnect = Some StepDisconnect"
| "shutdown_step_of c e = None"

fun shutdown_steps :: "config \<Rightarrow> event list \<Rightarrow> shutdown_step list" where
  "shutdown_steps c [] = []"
| "shutdown_steps c (e # es) =
     (case shutdown_step_of c e of
        None \<Rightarrow> shutdown_steps c es
      | Some s \<Rightarrow> s # shutdown_steps c es)"

section \<open>Example inputs\<close>

text \<open>
  A configuration, a device with every optional interface, and an outside world in which
  every call succeeds and the bus is connected; then variants in which one call fails.
\<close>

definition example_config :: config where
  "example_config =
     \<lparr>mqtt_host = Some ''broker'', mqtt_port = 1883, mqtt_user = Some ''user'',
      mqtt_password = Some ''secret'', mqtt_qos = 1, mqtt_base_topic = Some ''appletv'',
      appletv_id = Some ''AA:BB'', appletv_credentials = Some ''companion:abc'',
      appletv_address = Some ''10.0.0.2'', state_update_interval = 5,
      apps_update_interval = 60, mqtt_reconnect_delay = 5, appletv_reconnect_delay = 5,
      log_level = ''INFO''\<rparr>"

definition example_globals :: globals where
  "example_globals =
     \<lparr>config = example_config, mqtt_client = True,
      atv = Some \<lparr>has_power = True, has_apps = True, has_stream = True\<rparr>\<rparr>"

definition example_playing :: playing where
  "example_playing =
     \<lparr>playing_media_type = Some ''MediaType.Video'',
      playing_device_state = Some ''DeviceState.Playing'',
      playing_title = Some ''Film'', playing_artist = None, playing_album = None,
      playing_genre = None, playing_position = Some 10, playing_total_time = Some 100,
      playing_repeat = None, playing_shuffle = None\<rparr>"

definition example_env :: env where
  "example_env =
     \<lparr>device_call = (\<lambda>w c. None),
      metadata_playing = (\<lambda>w. Inr example_playing),
      metadata_app = (\<lambda>w. Inr None),
      power_power_state = (\<lambda>w. Inr ''PowerState.On''),
      apps_app_list = (\<lambda>w. Inr []),
      atv_close = (\<lambda>w. None),
      is_connected = (\<lambda>w. True),
      client_publish = (\<lambda>w t p. None),
      client_subscribe = (\<lambda>w t. None),
      client_disconnect = (\<lambda>w. None),
      shutdown_is_set = (\<lambda>w. False),
      queue_get = (\<lambda>w. None),
      json_loads = (\<lambda>s. None)\<rparr>"


definition playing_fails_env :: env where
  "playing_fails_env =
     example_env\<lparr>metadata_playing := (\<lambda>w. Inl (Exn ''ConnectionLost'' ''gone''))\<rparr>"

definition disconnected_env :: env where
  "disconnected_env = example_env\<lparr>is_connected := (\<lambda>w. False)\<rparr>"

definition publish_fails_env :: env where
  "publish_fails_env =
     example_env\<lparr>client_publish := (\<lambda>w t p. Some (Exn ''ValueError'' ''invalid topic''))\<rparr>"

text \<open>A decoder that knows the few payloads of the examples.\<close>

definition example_loads :: "string \<Rightarrow> json option" where
  \<open>example_loads =
     map_of
       [(''{}'', JObj []),
        (''{"type": "state"}'', JObj [(''type'', JStr ''state'')]),
        (''{"type": "apps"}'', JObj [(''type'', JStr ''apps'')]),
        (''{"type": "volume"}'', JObj [(''type'', JStr ''volume'')]),
        (''{"action": ""}'', JObj [(''action'', JStr '''')]),
        (''{"action": "launch_app", "app_id": "com.apple.TVMusic"}'',
           JObj [(''action'', JStr ''launch_app''), (''app_id'', JStr ''com.apple.TVMusic'')])]\<close>

definition decoding_env :: env where
  "decoding_env = example_env\<lparr>json_loads := example_loads\<rparr>"

text \<open>An environment that sets every variable, with a lower-case log level.\<close>

definition example_environ :: "string \<Rightarrow> string option" where
  "example_environ =
     map_of
       [(''MQTT_HOST'', ''broker''), (''MQTT_PORT'', ''1883''), (''MQTT_USER'', ''user''),
        (''MQTT_PASSWORD'', ''secret''), (''MQTT_QOS'', ''1''), (''MQTT_BASE_TOPIC'', ''appletv''),
        (''APPLETV_ID'', ''AA:BB''), (''APPLETV_CREDENTIALS'', ''companion:abc''),
        (''APPLETV_ADDRESS'', ''10.0.0.2''), (''STATE_UPDATE_INTERVAL'', ''5''),
        (''APPS_UPDATE_INTERVAL'', ''60''), (''MQTT_RECONNECT_DELAY'', ''5''),
        (''APPLETV_RECONNECT_DELAY'', ''5''), (''LOG_LEVEL'', ''debug'')]"

text \<open>\<open>int\<close> on the numerals of the example.\<close>

definition example_int :: "string \<Rightarrow> int option" where
  "example_int = map_of [(''1883'', 1883), (''1'', 1), (''5'', 5), (''60'', 60)]"

text \<open>\<open>str.upper\<close> on the log levels of the example.\<close>

definition example_upper :: "string \<Rightarrow> string" where
  "example_upper s =
     (case map_of [(''debug'', ''DEBUG''), (''INFO'', ''INFO'')] s of
        None \<Rightarrow> s
      | Some u \<Rightarrow> u)"

section \<open>The Action Executor\<close>

lemma device_calls_append: "device_calls (xs @ ys) = device_calls xs @ device_calls ys"
  by (induction xs rule: device_calls.induct) simp_all

lemma finish_returns:
  "fst (case X of
          (Inl e, w') \<Rightarrow> (Inr (), f e w')
        | (Inr False, w') \<Rightarrow> (Inr (), w')
        | (Inr True, w') \<Rightarrow> (Inr (), g w')) = Inr ()"
  by (cases X) (simp split: sum.split bool.split)

lemma execute_command_returns: "fst (execute_command E G action kwargs w) = Inr ()"
  by (subst execute_command.simps) (simp only: finish_returns fst_conv split: option.split, simp)

lemma execute_command_no_session:
  "atv G = None \<Longrightarrow>
   execute_command E G action kwargs w = (Inr (), w @ [Log Warning AtvNotConnectedCannotExecute])"
  by (subst execute_command.simps) simp

lemma execute_command_unknown:
  "atv G = Some a \<Longrightarrow> action \<notin> set catalogue \<Longrightarrow>
   execute_command E G action kwargs w = (Inr (), w @ [Log Warning (UnknownAction action)])"
  by (subst execute_command.simps) (simp add: catalogue_def)


lemma multi_fold:
  "fold (\<lambda>cmd r.
           case r of
             (Inl e, w') \<Rightarrow> (Inl e, w')
           | (Inr b, w') \<Rightarrow>
               (case execute_command E G cmd [] w' of
                  (Inl e, w'') \<Rightarrow> (Inl e, w'')
                | (Inr u, w'') \<Rightarrow> (Inr True, w'' @ [Sleep (Millis 300)])))
        cmds (Inr b0, w) = (Inr (b0 \<or> cmds \<noteq> []), steps_in_order E G cmds w)"
proof (induction cmds arbitrary: w b0)
  case Nil
  show ?case by simp
next
  case (Cons c cs)
  obtain w1 where ex: "execute_command E G c [] w = (Inr (), w1)"
    using execute_command_returns [of E G c "[]" w] by (cases "execute_command E G c [] w") auto
  show ?case
    using Cons.IH [of True "w1 @ [Sleep (Millis 300)]"] ex by simp
qed

lemma execute_command_multi:
  assumes "atv G = Some a"
    and "py_iter (dict_get_default kwargs ''commands'' (JList [])) = Some cmds"
  shows "execute_command E G (JStr ''multi'') kwargs w =
     (Inr (), steps_in_order E G cmds w @ [Log Info (ExecutedCommand (JStr ''multi''))])"
  using assms
  by (subst execute_command.simps) (simp add: multi_fold)

lemma execute_command_without_parameters:
  assumes "atv G = Some a"
    and "action = JStr ''launch_app'' \<or> action = JStr ''play_url'' \<or> action = JStr ''multi''"
  shows "execute_command E G action [] w = (Inr (), w @ [Log Info (ExecutedCommand action)])"
  using assms
  by (subst execute_command.simps) (auto simp: dict_get_def dict_get_default_def)

lemma steps_in_order_append:
  "steps_in_order E G (xs @ ys) w = steps_in_order E G ys (steps_in_order E G xs w)"
  by (induction xs arbitrary: w) simp_all


text \<open>
  C8. Without a device session \<open>execute_command\<close> only logs the "not connected"
  warning; with a session and an action outside the catalogue it only logs the "unknown
  action" warning. In both cases it returns normally and the trace gains no Device Client
  call.
\<close>

theorem execute_command_guards:
  "(atv G = None \<longrightarrow>
      execute_command E G action kwargs w =
        (Inr (), w @ [Log Warning AtvNotConnectedCannotExecute])) \<and>
   (atv G \<noteq> None \<and> action \<notin> set catalogue \<longrightarrow>
      execute_command E G action kwargs w = (Inr (), w @ [Log Warning (UnknownAction action)])) \<and>
   (atv G = None \<or> action \<notin> set catalogue \<longrightarrow>
      fst (execute_command E G action kwargs w) = Inr () \<and>
      device_calls (snd (execute_command E G action kwargs w)) = device_calls w)"
proof (cases "atv G")
  case None
  then show ?thesis
    by (simp add: execute_command_no_session device_calls_append)
next
  case (Some a)
  then show ?thesis
    by (auto simp: execute_command_unknown device_calls_append)
qed

theorem execute_command_guards_witness:
  "execute_command example_env (example_globals\<lparr>atv := None\<rparr>) (JStr ''up'') [] [] =
     (Inr (), [Log Warning AtvNotConnectedCannotExecute]) \<and>
   execute_command example_env example_globals (JStr ''dance'') [(''app_id'', JStr ''x'')] [] =
     (Inr (), [Log Warning (UnknownAction (JStr ''dance''))]) \<and>
   device_calls (snd (execute_command example_env example_globals (JInt 7) [] [])) = []"
  using execute_command_guards [of "example_globals\<lparr>atv := None\<rparr>" example_env "JStr ''up''" "[]" "[]"]
    execute_command_guards [of example_globals example_env "JStr ''dance''" "[(''app_id'', JStr ''x'')]" "[]"]
    execute_command_guards [of example_globals example_env "JInt 7" "[]" "[]"]
  by (simp add: example_globals_def catalogue_def)



text \<open>
  C10. The steps of a "multi" command are called with the step's name and no keyword
  argument, whatever else the command carried. A step \<open>launch_app\<close>, \<open>play_url\<close> or
  \<open>multi\<close> therefore makes no device call (it only logs its completion), and the steps
  after it still run.
\<close>

theorem multi_step_gets_no_parameters:
  assumes "atv G = Some a"
    and "map_of kwargs ''commands'' = Some (JList (pre @ cmd # post))"
    and "cmd = JStr ''launch_app'' \<or> cmd = JStr ''play_url'' \<or> cmd = JStr ''multi''"
  shows "execute_command E G cmd [] w' = (Inr (), w' @ [Log Info (ExecutedCommand cmd)]) \<and>
         execute_command E G (JStr ''multi'') kwargs w =
           (Inr (),
            steps_in_order E G post
              (steps_in_order E G pre w @ [Log Info (ExecutedCommand cmd), Sleep (Millis 300)])
            @ [Log Info (ExecutedCommand (JStr ''multi''))])"
proof -
  have it: "py_iter (dict_get_default kwargs ''commands'' (JList [])) = Some (pre @ cmd # post)"
    using assms(2) by (simp add: dict_get_default_def)
  have step: "\<And>v. execute_command E G cmd [] v = (Inr (), v @ [Log Info (ExecutedCommand cmd)])"
    using execute_command_without_parameters [OF assms(1) assms(3)] .
  show ?thesis
    using execute_command_multi [OF assms(1) it, of E w]
    by (simp add: step steps_in_order_append)
qed

theorem multi_step_gets_no_parameters_witness:
  "execute_command example_env example_globals (JStr ''multi'')
     [(''commands'', JList [JStr ''up'', JStr ''launch_app'', JStr ''down'']),
      (''app_id'', JStr ''com.netflix.Netflix'')] [] =
   (Inr (),
    [Device (RemoteControl RcUp), Log Info (ExecutedCommand (JStr ''up'')), Sleep (Millis 300),
     Log Info (ExecutedCommand (JStr ''launch_app'')), Sleep (Millis 300),
     Device (RemoteControl RcDown), Log Info (ExecutedCommand (JStr ''down'')), Sleep (Millis 300),
     Log Info (ExecutedCommand (JStr ''multi''))])"
  using multi_step_gets_no_parameters
    [of example_globals "\<lparr>has_power = True, has_apps = True, has_stream = True\<rparr>"
        "[(''commands'', JList [JStr ''up'', JStr ''launch_app'', JStr ''down'']),
          (''app_id'', JStr ''com.netflix.Netflix'')]"
        "[JStr ''up'']" "JStr ''launch_app''" "[JStr ''down'']" example_env "[]" "[]"]
  by (simp add: example_globals_def example_env_def execute_command.simps await_call_def)

section \<open>Publishing\<close>

text \<open>
  C7. \<open>mqtt_publish\<close> always returns normally. When there is no client or the client is
  not connected it only logs the "skipping publish" warning; otherwise it hands the
  message to the client exactly once, at the configured quality of service and with the
  given retain flag, and logs either the debug record or, when the client raised, the
  error.
\<close>

theorem mqtt_publish_never_raises:
  "fst (mqtt_publish E G tpc pl retain w) = Inr () \<and>
   (\<not> (mqtt_client G \<and> is_connected E w) \<longrightarrow>
      snd (mqtt_publish E G tpc pl retain w) = w @ [Log Warning MqttNotConnectedSkippingPublish]) \<and>
   (mqtt_client G \<and> is_connected E w \<longrightarrow>
      snd (mqtt_publish E G tpc pl retain w) =
        w @ BusPublish tpc pl (mqtt_qos (config G)) retain #
          (case client_publish E w tpc pl of
             None \<Rightarrow> [Log Debug (PublishedTo tpc pl)]
           | Some e \<Rightarrow> [Log Error (ErrorPublishing e)]))"
  by (simp add: mqtt_publish_def split: option.split)

theorem mqtt_publish_never_raises_witness:
  "mqtt_publish example_env example_globals ''appletv/state'' (Text ''x'') False [] =
     (Inr (), [BusPublish ''appletv/state'' (Text ''x'') 1 False,
               Log Debug (PublishedTo ''appletv/state'' (Text ''x''))]) \<and>
   mqtt_publish disconnected_env example_globals ''appletv/state'' (Text ''x'') False [] =
     (Inr (), [Log Warning MqttNotConnectedSkippingPublish]) \<and>
   mqtt_publish publish_fails_env example_globals ''appletv/state'' (Text ''x'') False [] =
     (Inr (), [BusPublish ''appletv/state'' (Text ''x'') 1 False,
               Log Error (ErrorPublishing (Exn ''ValueError'' ''invalid topic''))])"
  using mqtt_publish_never_raises [of example_env example_globals "''appletv/state''" "Text ''x''" False "[]"]
    mqtt_publish_never_raises [of disconnected_env example_globals "''appletv/state''" "Text ''x''" False "[]"]
    mqtt_publish_never_raises [of publish_fails_env example_globals "''appletv/state''" "Text ''x''" False "[]"]
  by (simp add: prod_eq_iff example_env_def example_globals_def example_config_def
      disconnected_env_def publish_fails_env_def)

section \<open>Fetching the state\<close>

text \<open>
  C3. When the device session exists and \<open>metadata.playing()\<close> raises, \<open>get_state\<close>
  returns normally with the default snapshot, every field of which is \<open>None\<close>, after
  logging the error.
\<close>

theorem get_state_playing_raises:
  assumes "atv G = Some a" and "metadata_playing E w = Inl e"
  shows "get_state E G w =
           (Inr default_state,
            w @ [Device MetadataPlaying, Log Error (ErrorGettingState e), Log Debug Traceback]) \<and>
         all_fields_absent default_state"
  using assms by (simp add: get_state_def all_fields_absent_def default_state_def)

theorem get_state_playing_raises_witness:
  "get_state playing_fails_env example_globals [] =
     (Inr \<lparr>media_type = None, device_state = None, title = None, artist = None, album = None,
           genre = None, position = None, total_time = None, repeat = None, shuffle = None,
           app = None, app_id = None, power_state = None\<rparr>,
      [Device MetadataPlaying, Log Error (ErrorGettingState (Exn ''ConnectionLost'' ''gone'')),
       Log Debug Traceback])"
  using get_state_playing_raises
    [of example_globals "\<lparr>has_power = True, has_apps = True, has_stream = True\<rparr>"
        playing_fails_env "[]" "Exn ''ConnectionLost'' ''gone''"]
  by (simp add: example_globals_def playing_fails_env_def example_env_def default_state_def)

section \<open>The Command Dispatcher\<close>

lemma bus_publishes_append: "bus_publishes (xs @ ys) = bus_publishes xs @ bus_publishes ys"
  by (induction xs rule: bus_publishes.induct) simp_all

lemma get_state_shape:
  "\<exists>st tr. get_state E G w = (Inr st, w @ tr) \<and> bus_publishes tr = []"
  by (auto simp: get_state_def Let_def split: option.split sum.split)

lemma get_state_eq: "get_state E G w = (Inr (fetched_state E G w), snd (get_state E G w))"
  using get_state_shape [of E G w] by (auto simp: fetched_state_def)


lemma get_apps_shape:
  "\<exists>apps tr. get_apps E G w = (Inr apps, w @ tr) \<and> bus_publishes tr = []"
  by (auto simp: get_apps_def Let_def split: option.split sum.split)

lemma get_apps_eq: "get_apps E G w = (Inr (fetched_apps E G w), snd (get_apps E G w))"
  using get_apps_shape [of E G w] by (auto simp: fetched_apps_def)


lemma mqtt_publish_eq:
  "mqtt_publish E G tpc pl retain w = (Inr (), snd (mqtt_publish E G tpc pl retain w))"
  by (simp add: mqtt_publish_def split: option.split)






text \<open>
  C4, as the specification states it, fails: a set message whose object has no
  \<open>action\<close> is dropped without any log record, so no warning is logged.
\<close>

theorem set_without_action_warning_counterexample:
  \<open>task_command_handler_body decoding_env example_globals
     \<lparr>topic = ''appletv/set'', payload_text = ''{}''\<rparr> [] = (Inr (), []) \<and>
   (\<forall>m. Log Warning m \<notin> set (snd (task_command_handler_body decoding_env example_globals
      \<lparr>topic = ''appletv/set'', payload_text = ''{}''\<rparr> [])))\<close>
  by (simp add: task_command_handler_body_def decoding_env_def example_env_def
      example_globals_def example_config_def example_loads_def topic_set_def fstr_def
      dict_get_def)

text \<open>
  C4, amended. For a message on the set topic whose payload decodes to an object: when
  \<open>action\<close> is absent, or present with a falsy value (null, false, 0, an empty string,
  list or object), the handler does nothing at all: no log record, no call of the
  executor. Otherwise it calls \<open>execute_command\<close> with that action and the object's
  other fields as keyword arguments.
\<close>

theorem set_request_dispatch:
  assumes "topic cmd = topic_set (config G)"
    and "json_loads E (payload_text cmd) = Some (JObj kvs)"
  shows "(map_of kvs ''action'' = None \<longrightarrow> task_command_handler_body E G cmd w = (Inr (), w)) \<and>
         (\<not> truthy (dict_get kvs ''action'') \<longrightarrow>
            task_command_handler_body E G cmd w = (Inr (), w)) \<and>
         (truthy (dict_get kvs ''action'') \<longrightarrow>
            task_command_handler_body E G cmd w =
              execute_command E G (dict_get kvs ''action'')
                (filter (\<lambda>kv. fst kv \<noteq> ''action'') kvs) w)"
  using assms by (simp add: task_command_handler_body_def dict_get_def)

theorem set_request_dispatch_witness:
  \<open>task_command_handler_body decoding_env example_globals
     \<lparr>topic = ''appletv/set'',
      payload_text = ''{"action": "launch_app", "app_id": "com.apple.TVMusic"}''\<rparr> [] =
   (Inr (), [Device (LaunchApp (JStr ''com.apple.TVMusic'')),
             Log Info (ExecutedCommand (JStr ''launch_app''))]) \<and>
   task_command_handler_body decoding_env example_globals
     \<lparr>topic = ''appletv/set'', payload_text = ''{"action": ""}''\<rparr> [] = (Inr (), [])\<close>
  using set_request_dispatch
      [of \<open>\<lparr>topic = ''appletv/set'',
             payload_text = ''{"action": "launch_app", "app_id": "com.apple.TVMusic"}''\<rparr>\<close>
          example_globals decoding_env
          "[(''action'', JStr ''launch_app''), (''app_id'', JStr ''com.apple.TVMusic'')]" "[]"]
    set_request_dispatch
      [of \<open>\<lparr>topic = ''appletv/set'', payload_text = ''{"action": ""}''\<rparr>\<close>
          example_globals decoding_env "[(''action'', JStr '''')]" "[]"]
  by (simp add: decoding_env_def example_env_def example_globals_def example_config_def
      example_loads_def topic_set_def fstr_def dict_get_def execute_command.simps
      await_call_def)

section \<open>Configuration\<close>

lemma log_level_listed:
  "''LOG_LEVEL'' \<in> set (filter (not_getenv (environ(''LOG_LEVEL'' := None))) REQUIRED_VARS)"
  by (simp add: REQUIRED_VARS_def not_getenv_def)

lemma Config_init_without_log_level:
  "Config_init py_int py_upper (environ(''LOG_LEVEL'' := None)) =
     Inl (SystemExit 1 (filter (not_getenv (environ(''LOG_LEVEL'' := None))) REQUIRED_VARS))"
proof -
  have "filter (not_getenv (environ(''LOG_LEVEL'' := None))) REQUIRED_VARS \<noteq> []"
  proof
    assume e: "filter (not_getenv (environ(''LOG_LEVEL'' := None))) REQUIRED_VARS = []"
    have "''LOG_LEVEL'' \<in> set (filter (not_getenv (environ(''LOG_LEVEL'' := None))) REQUIRED_VARS)"
      by (rule log_level_listed)
    then show False
      unfolding e by simp
  qed
  then show ?thesis
    by (simp add: Config_init_def Config_validate_def Let_def)
qed

text \<open>
  C5. The specification makes the log level optional with the informational level as
  its default, and \<open>_load\<close> reads it that way: run on an environment without
  \<open>LOG_LEVEL\<close>, \<open>_load\<close> yields the upper-cased default \<open>INFO\<close>. But \<open>REQUIRED_VARS\<close>
  lists \<open>LOG_LEVEL\<close> and \<open>_validate\<close> runs first: in every environment without
  \<open>LOG_LEVEL\<close>, construction of the configuration exits with status 1 and lists
  \<open>LOG_LEVEL\<close> among the missing variables, so the default is never reached. With every
  other variable set, \<open>LOG_LEVEL\<close> is the only variable listed.
\<close>

theorem log_level_absent_exits:
  "Config_init py_int py_upper (environ(''LOG_LEVEL'' := None)) =
     Inl (SystemExit 1 (filter (not_getenv (environ(''LOG_LEVEL'' := None))) REQUIRED_VARS)) \<and>
   ''LOG_LEVEL'' \<in> set (filter (not_getenv (environ(''LOG_LEVEL'' := None))) REQUIRED_VARS) \<and>
   Config_init example_int example_upper (example_environ(''LOG_LEVEL'' := None)) =
     Inl (SystemExit 1 [''LOG_LEVEL'']) \<and>
   Config_load example_int example_upper (example_environ(''LOG_LEVEL'' := None)) =
     Inr (example_config\<lparr>log_level := ''INFO''\<rparr>)"
proof -
  have general: "Config_init py_int py_upper (environ(''LOG_LEVEL'' := None)) =
      Inl (SystemExit 1 (filter (not_getenv (environ(''LOG_LEVEL'' := None))) REQUIRED_VARS))"
    by (rule Config_init_without_log_level)
  have listed: "''LOG_LEVEL'' \<in> set (filter (not_getenv (environ(''LOG_LEVEL'' := None))) REQUIRED_VARS)"
    by (rule log_level_listed)
  have only: "filter (not_getenv (example_environ(''LOG_LEVEL'' := None))) REQUIRED_VARS =
                [''LOG_LEVEL'']"
    by (simp add: REQUIRED_VARS_def not_getenv_def example_environ_def)
  have exits: "Config_init example_int example_upper (example_environ(''LOG_LEVEL'' := None)) =
                 Inl (SystemExit 1 [''LOG_LEVEL''])"
    using Config_init_without_log_level [of example_int example_upper example_environ]
    by (simp only: only)
  have loads: "Config_load example_int example_upper (example_environ(''LOG_LEVEL'' := None)) =
                 Inr (example_config\<lparr>log_level := ''INFO''\<rparr>)"
    by (simp add: Config_load_def getenv_int_def example_environ_def example_int_def
        example_upper_def example_config_def)
  from general listed exits loads show ?thesis
    by (intro conjI)
qed

section \<open>Retain flags\<close>

lemma mqtt_publish_retain:
  assumes "mqtt_publish E G tpc pl retain w = (res, w')"
    and "list_all retain_as_specified w"
    and "retain_as_specified (BusPublish tpc pl (mqtt_qos (config G)) retain)"
  shows "list_all retain_as_specified w'"
  using assms by (auto simp: mqtt_publish_def split: if_splits option.splits)

lemma get_state_retain:
  assumes "get_state E G w = (res, w')" and "list_all retain_as_specified w"
  shows "list_all retain_as_specified w'"
  using assms by (auto simp: get_state_def Let_def split: option.splits sum.splits if_splits)

lemma get_apps_retain:
  assumes "get_apps E G w = (res, w')" and "list_all retain_as_specified w"
  shows "list_all retain_as_specified w'"
  using assms by (auto simp: get_apps_def Let_def split: option.splits sum.splits if_splits)

lemma finish_retain:
  assumes "list_all retain_as_specified (snd X)"
  shows "list_all retain_as_specified
           (snd (case X of
                   (Inl e, w') \<Rightarrow> (Inr (), w' @ [Log Error (m1 e), Log Debug m2])
                 | (Inr False, w') \<Rightarrow> (Inr (), w')
                 | (Inr True, w') \<Rightarrow> (Inr (), w' @ [Log Info m3])))"
  using assms by (cases X) (auto split: sum.splits bool.splits)

lemma await_call_snd: "snd (await_call E c w) = w @ [Device c]"
  by (simp add: await_call_def split: option.split)

lemma execute_command_plain_retain:
  assumes "list_all retain_as_specified w"
  shows "list_all retain_as_specified (snd (execute_command E G action [] w))"
proof (cases "atv G")
  case None
  then show ?thesis
    using assms by (simp add: execute_command_no_session)
next
  case (Some a)
  show ?thesis
    apply (subst execute_command.simps)
    apply (simp only: Some option.case)
    apply (rule finish_retain)
    apply (simp add: await_call_snd assms dict_get_def dict_get_default_def)
    done
qed

lemma steps_in_order_retain:
  "list_all retain_as_specified w \<Longrightarrow> list_all retain_as_specified (steps_in_order E G cmds w)"
proof (induction cmds arbitrary: w)
  case Nil
  then show ?case by simp
next
  case (Cons c cs)
  have "list_all retain_as_specified (snd (execute_command E G c [] w) @ [Sleep (Millis 300)])"
    using execute_command_plain_retain [OF Cons.prems, of E G c] by simp
  then show ?case
    using Cons.IH by simp
qed

lemma execute_command_retain:
  assumes "list_all retain_as_specified w"
  shows "list_all retain_as_specified (snd (execute_command E G action kwargs w))"
proof (cases "atv G")
  case None
  then show ?thesis
    using assms by (simp add: execute_command_no_session)
next
  case (Some a)
  show ?thesis
    apply (subst execute_command.simps)
    apply (simp only: Some option.case)
    apply (rule finish_retain)
    apply (simp add: await_call_snd assms multi_fold steps_in_order_retain Let_def split: option.split)
    done
qed

lemma state_part_eq:
  "(case get_state E G v of
      (Inl e, w1) \<Rightarrow> (Inl e, w1)
    | (Inr st, w1) \<Rightarrow> mqtt_publish E G (topic_state (config G)) (DumpsState st) False w1) =
   (Inr (), fetch_and_publish_state E G v)"
  by (subst get_state_eq, subst mqtt_publish_eq) (simp add: fetch_and_publish_state_def)

lemma apps_part_eq:
  "(case get_apps E G v of
      (Inl e, w3) \<Rightarrow> (Inl e, w3)
    | (Inr apps, w3) \<Rightarrow> mqtt_publish E G (topic_apps (config G)) (DumpsApps apps) True w3) =
   (Inr (), fetch_and_publish_apps E G v)"
  by (subst get_apps_eq, subst mqtt_publish_eq) (simp add: fetch_and_publish_apps_def)

lemma fetch_and_publish_state_retain:
  assumes "list_all retain_as_specified w"
  shows "list_all retain_as_specified (fetch_and_publish_state E G w)"
proof -
  have "list_all retain_as_specified (snd (get_state E G w))"
    using get_state_retain [OF surjective_pairing assms] .
  then show ?thesis
    unfolding fetch_and_publish_state_def
    by (rule mqtt_publish_retain [OF surjective_pairing]) simp
qed

lemma fetch_and_publish_apps_retain:
  assumes "list_all retain_as_specified w"
  shows "list_all retain_as_specified (fetch_and_publish_apps E G w)"
proof -
  have "list_all retain_as_specified (snd (get_apps E G w))"
    using get_apps_retain [OF surjective_pairing assms] .
  then show ?thesis
    unfolding fetch_and_publish_apps_def
    by (rule mqtt_publish_retain [OF surjective_pairing]) simp
qed

lemma task_command_handler_body_retain:
  assumes "list_all retain_as_specified w"
  shows "list_all retain_as_specified (snd (task_command_handler_body E G cmd w))"
  using assms
  by (simp add: task_command_handler_body_def state_part_eq apps_part_eq
      fetch_and_publish_state_retain fetch_and_publish_apps_retain execute_command_retain
      split: option.split sum.split prod.split)

lemma task_command_handler_loop_retain:
  "list_all retain_as_specified w \<Longrightarrow>
   list_all retain_as_specified (snd (task_command_handler_loop E G n w))"
proof (induction n arbitrary: w)
  case 0
  then show ?case by simp
next
  case (Suc n)
  show ?case
  proof (cases "queue_get E w")
    case None
    then show ?thesis
      using Suc.IH [of "w @ [QueueGet None]"] Suc.prems by simp
  next
    case (Some cmd)
    obtain r w' where body: "task_command_handler_body E G cmd (w @ [QueueGet (Some cmd)]) = (r, w')"
      by (cases "task_command_handler_body E G cmd (w @ [QueueGet (Some cmd)])")
    have ok': "list_all retain_as_specified w'"
      using task_command_handler_body_retain [of "w @ [QueueGet (Some cmd)]" E G cmd] Suc.prems body
      by simp
    show ?thesis
      using Suc.IH [of w'] Suc.IH [of "w' @ [Log Error (ErrorInCommandHandler e), Log Debug Traceback]" for e]
        Suc.prems Some body ok'
      by (cases r) simp_all
  qed
qed

lemma state_iteration_retain:
  assumes "list_all retain_as_specified w"
  shows "list_all retain_as_specified
           (case get_state E G w of
              (Inl e, w1) \<Rightarrow> w1 @ [Log Error (ErrorInStateUpdateTask e), Log Debug Traceback]
            | (Inr st, w1) \<Rightarrow>
                (case mqtt_publish E G (topic_state (config G)) (DumpsState st) False w1 of
                   (Inl e, w2) \<Rightarrow> w2 @ [Log Error (ErrorInStateUpdateTask e), Log Debug Traceback]
                 | (Inr u, w2) \<Rightarrow> w2))"
proof -
  have "list_all retain_as_specified (fetch_and_publish_state E G w)"
    using assms by (rule fetch_and_publish_state_retain)
  then show ?thesis
    by (subst get_state_eq, simp, subst mqtt_publish_eq) (simp add: fetch_and_publish_state_def)
qed

lemma apps_iteration_retain:
  assumes "list_all retain_as_specified w"
  shows "list_all retain_as_specified
           (case get_apps E G w of
              (Inl e, w1) \<Rightarrow> w1 @ [Log Error (ErrorInAppsUpdateTask e), Log Debug Traceback]
            | (Inr apps, w1) \<Rightarrow>
                (case mqtt_publish E G (topic_apps (config G)) (DumpsApps apps) True w1 of
                   (Inl e, w2) \<Rightarrow> w2 @ [Log Error (ErrorInAppsUpdateTask e), Log Debug Traceback]
                 | (Inr u, w2) \<Rightarrow> w2))"
proof -
  have "list_all retain_as_specified (fetch_and_publish_apps E G w)"
    using assms by (rule fetch_and_publish_apps_retain)
  then show ?thesis
    by (subst get_apps_eq, simp, subst mqtt_publish_eq) (simp add: fetch_and_publish_apps_def)
qed

lemma task_state_update_loop_retain:
  "list_all retain_as_specified w \<Longrightarrow>
   list_all retain_as_specified (snd (task_state_update_loop E G n w))"
proof (induction n arbitrary: w)
  case 0
  then show ?case by simp
next
  case (Suc n)
  have "list_all retain_as_specified
          ((case get_state E G w of
              (Inl e, w1) \<Rightarrow> w1 @ [Log Error (ErrorInStateUpdateTask e), Log Debug Traceback]
            | (Inr st, w1) \<Rightarrow>
                (case mqtt_publish E G (topic_state (config G)) (DumpsState st) False w1 of
                   (Inl e, w2) \<Rightarrow> w2 @ [Log Error (ErrorInStateUpdateTask e), Log Debug Traceback]
                 | (Inr u, w2) \<Rightarrow> w2))
           @ [Sleep (Seconds (state_update_interval (config G)))])"
    using state_iteration_retain [OF Suc.prems, of E G] by simp
  from Suc.IH [OF this] Suc.prems show ?case
    by (simp add: Let_def)
qed

lemma task_apps_update_loop_retain:
  "list_all retain_as_specified w \<Longrightarrow>
   list_all retain_as_specified (snd (task_apps_update_loop E G n w))"
proof (induction n arbitrary: w)
  case 0
  then show ?case by simp
next
  case (Suc n)
  have "list_all retain_as_specified
          ((case get_apps E G w of
              (Inl e, w1) \<Rightarrow> w1 @ [Log Error (ErrorInAppsUpdateTask e), Log Debug Traceback]
            | (Inr apps, w1) \<Rightarrow>
                (case mqtt_publish E G (topic_apps (config G)) (DumpsApps apps) True w1 of
                   (Inl e, w2) \<Rightarrow> w2 @ [Log Error (ErrorInAppsUpdateTask e), Log Debug Traceback]
                 | (Inr u, w2) \<Rightarrow> w2))
           @ [Sleep (Seconds (apps_update_interval (config G)))])"
    using apps_iteration_retain [OF Suc.prems, of E G] by simp
  from Suc.IH [OF this] Suc.prems show ?case
    by (simp add: Let_def)
qed

lemma on_mqtt_connect_retain:
  "list_all retain_as_specified w \<Longrightarrow>
   list_all retain_as_specified (snd (on_mqtt_connect E G reason_code w))"
  by (simp add: on_mqtt_connect_def Let_def split: option.split)

lemma graceful_shutdown_retain:
  assumes "list_all retain_as_specified w"
  shows "list_all retain_as_specified (snd (graceful_shutdown E G w))"
proof -
  have "list_all retain_as_specified
          (snd (mqtt_publish E G (topic_availability (config G)) (Text ''offline'') True
                  (w @ [Log Info ShuttingDown, TaskCancel StateUpdate, TaskCancel AppsUpdate,
                        TaskCancel CommandHandler, Gather])))"
    using assms by (intro mqtt_publish_retain [OF surjective_pairing]) simp_all
  then show ?thesis
    unfolding graceful_shutdown_def Let_def
    by (subst mqtt_publish_eq) (simp split: option.split)
qed

lemma main_retain:
  assumes "list_all retain_as_specified w" and "list_all retain_as_specified running"
  shows "list_all retain_as_specified (snd (main E G connected running w))"
proof -
  have s: "list_all retain_as_specified (setup_mqtt G w)"
    using assms(1) by (simp add: setup_mqtt_def Let_def)
  show ?thesis
  proof (cases "atv G")
    case None
    then show ?thesis
      using s by (simp add: main_def Let_def split: option.split)
  next
    case (Some a)
    have "list_all retain_as_specified
            (setup_mqtt G w @ [TaskCreate StateUpdate, TaskCreate AppsUpdate,
               TaskCreate CommandHandler, Log Info AllTasksStarted] @ running)"
      using s assms(2) by simp
    from graceful_shutdown_retain [OF this, of E G] Some s show ?thesis
      by (simp add: main_def Let_def)
  qed
qed

text \<open>
  C6. Every message the bridge hands to the Pub/Sub client carries the retain flag the
  specification gives its kind: "online", "offline" and the apps list retained, the
  state snapshot not retained. This holds along the connect callback, along any number
  of iterations of the two periodic loops and of the command handler's loop (which
  contains the on-demand get handling), and along \<open>main\<close> with its fatal device-connect
  path and its shutdown.
\<close>

theorem retain_flags:
  assumes "list_all retain_as_specified w"
  shows "list_all retain_as_specified (snd (on_mqtt_connect E G reason_code w)) \<and>
         list_all retain_as_specified (snd (task_state_update E G n w)) \<and>
         list_all retain_as_specified (snd (task_apps_update E G n w)) \<and>
         list_all retain_as_specified (snd (task_command_handler E G n w)) \<and>
         (list_all retain_as_specified running \<longrightarrow>
            list_all retain_as_specified (snd (main E G connected running w)))"
proof -
  have c: "list_all retain_as_specified (snd (on_mqtt_connect E G reason_code w))"
    using assms by (rule on_mqtt_connect_retain)
  have s: "list_all retain_as_specified (snd (task_state_update E G n w))"
    unfolding task_state_update_def
    by (rule task_state_update_loop_retain) (simp add: assms)
  have a: "list_all retain_as_specified (snd (task_apps_update E G n w))"
    unfolding task_apps_update_def
    by (rule task_apps_update_loop_retain) (simp add: assms)
  have h: "list_all retain_as_specified (snd (task_command_handler E G n w))"
    unfolding task_command_handler_def
    by (rule task_command_handler_loop_retain) (simp add: assms)
  have m: "list_all retain_as_specified running \<longrightarrow>
           list_all retain_as_specified (snd (main E G connected running w))"
    using main_retain [OF assms] by blast
  from c s a h m show ?thesis
    by blast
qed

theorem retain_flags_witness:
  "list_all retain_as_specified (snd (task_command_handler example_env example_globals 3 [])) \<and>
   bus_publishes (snd (on_mqtt_connect example_env example_globals 0 [])) =
     [(''appletv/availability'', Text ''online'', 1, True)] \<and>
   bus_publishes (snd (task_apps_update example_env example_globals 1 [])) =
     [(''appletv/apps'', DumpsApps [], 1, True)] \<and>
   map (\<lambda>m. snd (snd (snd m))) (bus_publishes (snd (task_state_update example_env example_globals 2 []))) =
     [False, False] \<and>
   bus_publishes (snd (main example_env example_globals True [] [])) =
     [(''appletv/availability'', Text ''offline'', 1, True)]"
  using retain_flags [of "[]" example_env example_globals 0 2 "[]" True]
    retain_flags [of "[]" example_env example_globals 0 1 "[]" True]
    retain_flags [of "[]" example_env example_globals 0 3 "[]" True]
  by (simp add: on_mqtt_connect_def task_apps_update_def task_state_update_def main_def
      graceful_shutdown_def setup_mqtt_def get_apps_def get_state_def mqtt_publish_def
      example_env_def example_globals_def example_config_def example_playing_def
      topic_availability_def topic_apps_def topic_state_def topic_set_def topic_get_def
      fstr_def Let_def default_state_def numeral_2_eq_2)

section \<open>Shutdown\<close>

lemma shutdown_steps_append:
  "shutdown_steps c (xs @ ys) = shutdown_steps c xs @ shutdown_steps c ys"
  by (induction xs) (simp_all split: option.split)

lemma mqtt_publish_snd:
  "snd (mqtt_publish E G tpc pl retain w) =
     w @ (if mqtt_client G \<and> is_connected E w
          then BusPublish tpc pl (mqtt_qos (config G)) retain #
                 (case client_publish E w tpc pl of
                    None \<Rightarrow> [Log Debug (PublishedTo tpc pl)]
                  | Some e \<Rightarrow> [Log Error (ErrorPublishing e)])
          else [Log Warning MqttNotConnectedSkippingPublish])"
  by (simp add: mqtt_publish_def split: option.split)

lemma graceful_shutdown_snd:
  assumes "atv G = Some a"
    and "w1 = w0 @ [Log Info ShuttingDown, TaskCancel StateUpdate, TaskCancel AppsUpdate,
                    TaskCancel CommandHandler, Gather]"
    and "w2 = snd (mqtt_publish E G (topic_availability (config G)) (Text ''offline'') True w1)"
  shows "snd (graceful_shutdown E G w0) =
           w2 @ Device Close #
             (case atv_close E w2 of
                Some e \<Rightarrow> []
              | None \<Rightarrow>
                  Log Info AppleTvConnectionClosed # BusLoopStop # BusDisconnect #
                    (case client_disconnect E
                            (w2 @ [Device Close, Log Info AppleTvConnectionClosed, BusLoopStop]) of
                       Some e \<Rightarrow> []
                     | None \<Rightarrow> [Log Info MqttDisconnected, Log Info ShutdownComplete]))"
  unfolding graceful_shutdown_def Let_def
  by (subst mqtt_publish_eq) (simp add: assms split: option.split)

text \<open>
  C9, as stated, fails in its last part: when the bus client is not connected at
  shutdown, the graceful shutdown runs to its end (exit status 0) and no "offline"
  message is handed to the client; \<open>mqtt_publish\<close> logs that it skips the publish.
\<close>

theorem offline_publish_skipped_counterexample:
  "main disconnected_env example_globals True [] [] =
     (Inr 0,
      [BusUsernamePwSet,
       BusWillSet ''appletv/availability'' (Text ''offline'') 1 True,
       TaskCreate StateUpdate, TaskCreate AppsUpdate, TaskCreate CommandHandler,
       Log Info AllTasksStarted,
       Log Info ShuttingDown,
       TaskCancel StateUpdate, TaskCancel AppsUpdate, TaskCancel CommandHandler, Gather,
       Log Warning MqttNotConnectedSkippingPublish,
       Device Close, Log Info AppleTvConnectionClosed,
       BusLoopStop, BusDisconnect,
       Log Info MqttDisconnected, Log Info ShutdownComplete]) \<and>
   bus_publishes (snd (main disconnected_env example_globals True [] [])) = []"
  by (simp add: main_def graceful_shutdown_def setup_mqtt_def mqtt_publish_def Let_def
      disconnected_env_def example_env_def example_globals_def example_config_def
      topic_availability_def fstr_def)

text \<open>
  C9, amended. On the shutdown path of \<open>main\<close> (both connections were made, the
  shutdown event was set), what \<open>main\<close> does from then on is, in this order and no
  other: cancel the three tasks, await them, call \<open>mqtt_publish\<close> for "offline" on the
  availability topic with retain set, close the device session, stop the client's loop
  and disconnect it. The "offline" message reaches the client exactly when the client is
  connected at that moment, and is otherwise skipped with a warning; the session is
  always closed after it; the disconnect follows unless closing the session raised.
\<close>

theorem shutdown_order:
  assumes "atv G = Some a"
    and "w0 = setup_mqtt G w @ [TaskCreate StateUpdate, TaskCreate AppsUpdate,
                                TaskCreate CommandHandler, Log Info AllTasksStarted] @ running"
    and "w1 = w0 @ [Log Info ShuttingDown, TaskCancel StateUpdate, TaskCancel AppsUpdate,
                    TaskCancel CommandHandler, Gather]"
    and "w2 = snd (mqtt_publish E G (topic_availability (config G)) (Text ''offline'') True w1)"
  shows "take (length w0) (snd (main E G True running w)) = w0 \<and>
         shutdown_steps (config G) (drop (length w0) (snd (main E G True running w))) =
           [StepCancel StateUpdate, StepCancel AppsUpdate, StepCancel CommandHandler, StepAwait] @
           (if mqtt_client G \<and> is_connected E w1 then [StepOffline] else []) @
           [StepClose] @
           (if atv_close E w2 = None then [StepLoopStop, StepDisconnect] else []) \<and>
         bus_publishes (drop (length w0) (snd (main E G True running w))) =
           (if mqtt_client G \<and> is_connected E w1
            then [(topic_availability (config G), Text ''offline'', mqtt_qos (config G), True)]
            else [])"
proof -
  have m: "snd (main E G True running w) = snd (graceful_shutdown E G w0)"
    using assms(1,2) by (simp add: main_def Let_def)
  have p: "w2 = w0 @ [Log Info ShuttingDown, TaskCancel StateUpdate, TaskCancel AppsUpdate,
                      TaskCancel CommandHandler, Gather] @
                 (if mqtt_client G \<and> is_connected E w1
                  then BusPublish (topic_availability (config G)) (Text ''offline'')
                         (mqtt_qos (config G)) True #
                       (case client_publish E w1 (topic_availability (config G))
                               (Text ''offline'') of
                          None \<Rightarrow> [Log Debug (PublishedTo (topic_availability (config G))
                                                 (Text ''offline''))]
                        | Some e \<Rightarrow> [Log Error (ErrorPublishing e)])
                  else [Log Warning MqttNotConnectedSkippingPublish])"
    unfolding assms(4) mqtt_publish_snd by (simp add: assms(3))
  have g: "snd (graceful_shutdown E G w0) =
             w2 @ Device Close #
               (case atv_close E w2 of
                  Some e \<Rightarrow> []
                | None \<Rightarrow>
                    Log Info AppleTvConnectionClosed # BusLoopStop # BusDisconnect #
                      (case client_disconnect E
                              (w2 @ [Device Close, Log Info AppleTvConnectionClosed,
                                     BusLoopStop]) of
                         Some e \<Rightarrow> []
                       | None \<Rightarrow> [Log Info MqttDisconnected, Log Info ShutdownComplete]))"
    using assms(1) assms(3) assms(4) by (rule graceful_shutdown_snd)
  obtain tl where t: "snd (main E G True running w) = w2 @ Device Close # tl"
    and tl: "tl = (case atv_close E w2 of
                     Some e \<Rightarrow> []
                   | None \<Rightarrow>
                       Log Info AppleTvConnectionClosed # BusLoopStop # BusDisconnect #
                         (case client_disconnect E
                                 (w2 @ [Device Close, Log Info AppleTvConnectionClosed,
                                        BusLoopStop]) of
                            Some e \<Rightarrow> []
                          | None \<Rightarrow> [Log Info MqttDisconnected, Log Info ShutdownComplete]))"
    using m g by simp
  have steps_tl: "shutdown_steps (config G) tl =
                    (if atv_close E w2 = None then [StepLoopStop, StepDisconnect] else [])"
    unfolding tl by (simp split: option.split)
  have pubs_tl: "bus_publishes tl = []"
    unfolding tl by (simp split: option.split)
  obtain mid where w2_eq: "w2 = w0 @ mid"
    and steps_mid: "shutdown_steps (config G) mid =
          [StepCancel StateUpdate, StepCancel AppsUpdate, StepCancel CommandHandler, StepAwait] @
          (if mqtt_client G \<and> is_connected E w1 then [StepOffline] else [])"
    and pubs_mid: "bus_publishes mid =
          (if mqtt_client G \<and> is_connected E w1
           then [(topic_availability (config G), Text ''offline'', mqtt_qos (config G), True)]
           else [])"
    using p by (simp add: shutdown_steps_append bus_publishes_append split: option.split)
  have whole: "snd (main E G True running w) = w0 @ (mid @ Device Close # tl)"
    using t w2_eq by simp
  show ?thesis
    unfolding whole
    by (simp add: shutdown_steps_append bus_publishes_append steps_mid pubs_mid steps_tl pubs_tl)
qed

theorem shutdown_order_witness:
  "shutdown_steps example_config (drop 6 (snd (main example_env example_globals True [] []))) =
     [StepCancel StateUpdate, StepCancel AppsUpdate, StepCancel CommandHandler, StepAwait,
      StepOffline, StepClose, StepLoopStop, StepDisconnect] \<and>
   bus_publishes (drop 6 (snd (main example_env example_globals True [] []))) =
     [(''appletv/availability'', Text ''offline'', 1, True)]"
  using shutdown_order
    [where G = example_globals and E = example_env and w = "[]" and running = "[]"
       and a = "\<lparr>has_power = True, has_apps = True, has_stream = True\<rparr>",
     OF _ refl refl refl]
  by (simp add: main_def graceful_shutdown_def setup_mqtt_def mqtt_publish_def Let_def
      example_env_def example_globals_def example_config_def topic_availability_def fstr_def)

end
